theory Spec2Isabelle
  imports Complex_Main "HOL-Library.Log_Nat" "HOL-Library.Sublist" "HOL-Library.AList"
begin

section \<open>Errors\<close>

text \<open>
  The TypeScript of \<^verbatim>\<open>public/app/features/runtime/init.ts\<close> fails in two ways: a
  \<^verbatim>\<open>TypeError\<close> raised by the runtime (reading a property of \<^verbatim>\<open>undefined\<close>,
  destructuring \<^verbatim>\<open>null\<close>), and a promise that rejects with a reason. Both are values
  here; \<open>Inl\<close> carries them. An \<^verbatim>\<open>async\<close> function that throws rejects its promise.
\<close>

datatype error = TypeError | Rejected string

text \<open>
  Every \<^verbatim>\<open>for (let i = 0; i < n; i++)\<close> of the source is a recursion over the indices
  \<open>[0..<n]\<close> that threads the mutated object and stops at the first error.
\<close>

fun for_loop :: "(nat \<Rightarrow> 's \<Rightarrow> error + 's) \<Rightarrow> nat list \<Rightarrow> 's \<Rightarrow> error + 's" where
  "for_loop body [] s = Inr s"
| "for_loop body (i # js) s =
     (case body i s of Inl e \<Rightarrow> Inl e | Inr s' \<Rightarrow> for_loop body js s')"

section \<open>JavaScript strings\<close>

text \<open>
  Strings are sequences of code units; the model covers the code units below 256
  (\<^typ>\<open>char\<close>). \<open>includes_str\<close> is \<^verbatim>\<open>String.prototype.includes\<close>, \<open>replace\<close> is
  \<^verbatim>\<open>String.prototype.replace\<close> with a string pattern (the first occurrence only), and
  \<open>show_nat\<close> is the template literal \<^verbatim>\<open>`${i}`\<close> of a loop index.
\<close>

fun includes_str :: "string \<Rightarrow> string \<Rightarrow> bool" where
  "includes_str [] pat = (pat = [])"
| "includes_str (c # cs) pat = (prefix pat (c # cs) \<or> includes_str cs pat)"

fun replace :: "string \<Rightarrow> string \<Rightarrow> string \<Rightarrow> string" where
  "replace [] pat rep = (if pat = [] then rep else [])"
| "replace (c # cs) pat rep =
     (if prefix pat (c # cs) then rep @ drop (length pat) (c # cs) else c # replace cs pat rep)"

definition digit_char :: "nat \<Rightarrow> char" where
  "digit_char n = ''0123456789'' ! n"

fun show_nat :: "nat \<Rightarrow> string" where
  "show_nat n =
     (if n < 10 then [digit_char n] else show_nat (n div 10) @ [digit_char (n mod 10)])"

declare show_nat.simps [simp del]

section \<open>JavaScript numbers\<close>

text \<open>
  A Number is an IEEE 754 double. The finite doubles are the rationals \<open>m * 2 ^ e\<close> with
  \<open>\<bar>m\<bar> < 2 ^ 53\<close>; \<open>rd\<close> rounds a rational to the nearest of them, ties to the even
  mantissa, which is what every arithmetic operation and every decimal literal of the
  language does. The exponent range is not modelled: the numbers of this program lie
  between \<open>2 ^ - 12\<close> and \<open>2 ^ 8\<close> in magnitude, or are zero. The sign of zero is not
  modelled either; no comparison sees it.
\<close>

definition expo :: "rat \<Rightarrow> int" where
  "expo x =
     (let (a, b) = quotient_of x; k = bitlen a - bitlen b
      in if 2 powi k \<le> x then k else k - 1)"

definition round_even :: "rat \<Rightarrow> int" where
  "round_even q =
     (let n = \<lfloor>q\<rfloor>; r = q - of_int n
      in if r < 1 / 2 then n else if 1 / 2 < r then n + 1 else if even n then n else n + 1)"

definition rd :: "rat \<Rightarrow> rat" where
  "rd x =
     (if x = 0 then 0
      else (let u = 2 powi (expo \<bar>x\<bar> - 52) in of_int (round_even (x / u)) * u))"

datatype number = NaN | Fin rat

definition literal :: "rat \<Rightarrow> number" where
  "literal q = Fin (rd q)"

fun times_n :: "number \<Rightarrow> number \<Rightarrow> number" where
  "times_n (Fin x) (Fin y) = Fin (rd (x * y))"
| "times_n _ _ = NaN"

fun plus_n :: "number \<Rightarrow> number \<Rightarrow> number" where
  "plus_n (Fin x) (Fin y) = Fin (rd (x + y))"
| "plus_n _ _ = NaN"

text \<open>Division, for a divisor that is not zero (the program divides by 255 only).\<close>

fun divide_n :: "number \<Rightarrow> number \<Rightarrow> number" where
  "divide_n (Fin x) (Fin y) = Fin (rd (x / y))"
| "divide_n _ _ = NaN"

text \<open>\<^verbatim>\<open>a > b\<close>: false when either side is NaN.\<close>

fun greater_n :: "number \<Rightarrow> number \<Rightarrow> bool" where
  "greater_n (Fin x) (Fin y) = (y < x)"
| "greater_n _ _ = False"

subsection \<open>\<^verbatim>\<open>parseInt(s, 16)\<close>\<close>

definition hex_digit :: "char \<Rightarrow> nat option" where
  "hex_digit c =
     map_of (zip ''0123456789abcdef'' [0, 1, 2, 3, 4, 5, 6, 7, 8, 9, 10, 11, 12, 13, 14, 15]
             @ zip ''ABCDEF'' [10, 11, 12, 13, 14, 15]) c"

definition is_hex :: "char \<Rightarrow> bool" where
  "is_hex c = (case hex_digit c of None \<Rightarrow> False | Some _ \<Rightarrow> True)"

text \<open>
  White space and line terminators among the code units below 256: TAB, LF, VT, FF, CR,
  SP and NBSP.
\<close>

definition is_white_space :: "char \<Rightarrow> bool" where
  "is_white_space c = (c \<in> set [CHR 0x09, CHR 0x0A, CHR 0x0B, CHR 0x0C, CHR 0x0D, CHR 0x20, CHR 0xA0])"

definition hex_value :: "string \<Rightarrow> nat" where
  "hex_value ds = foldl (\<lambda>acc c. 16 * acc + the (hex_digit c)) 0 ds"

text \<open>
  The steps of \<^verbatim>\<open>parseInt\<close> for radix 16: trim leading white space, read a sign, strip
  one \<^verbatim>\<open>0x\<close> or \<^verbatim>\<open>0X\<close>, take the longest run of hexadecimal digits; no digit gives NaN.
  The digit strings here have two code units, so the integer is exact.
\<close>

definition parseInt16 :: "string \<Rightarrow> number" where
  "parseInt16 inputString =
     (let S = dropWhile is_white_space inputString;
          sign = (if S \<noteq> [] \<and> hd S = CHR ''-'' then - 1 else 1 :: int);
          S1 = (if S \<noteq> [] \<and> (hd S = CHR ''+'' \<or> hd S = CHR ''-'') then tl S else S);
          S2 = (if take 2 S1 = ''0x'' \<or> take 2 S1 = ''0X'' then drop 2 S1 else S1);
          Z = takeWhile is_hex S2
      in if Z = [] then NaN else Fin (of_int (sign * int (hex_value Z))))"

section \<open>\<open>getTextColor\<close>\<close>

text \<open>
  \<^verbatim>\<open>backgroundColor.match(/^#(..)(..)(..)$/)\<close>: seven code units, the first one \<^verbatim>\<open>#\<close>,
  none of the other six a line terminator (which \<^verbatim>\<open>.\<close> does not match). \<open>None\<close> is
  the \<^verbatim>\<open>null\<close> of a failed match.
\<close>

definition line_terminator :: "char \<Rightarrow> bool" where
  "line_terminator c = (c = CHR 0x0A \<or> c = CHR 0x0D)"

definition match_rgb :: "string \<Rightarrow> (string \<times> string \<times> string) option" where
  "match_rgb s =
     (if length s = 7 \<and> hd s = CHR ''#'' \<and> list_all (\<lambda>c. \<not> line_terminator c) (tl s)
      then Some (take 2 (drop 1 s), take 2 (drop 3 s), take 2 (drop 5 s))
      else None)"

definition luminance :: "number \<Rightarrow> number \<Rightarrow> number \<Rightarrow> number" where
  "luminance rInt gInt bInt =
     divide_n
       (plus_n
          (plus_n (times_n (literal (299 / 1000)) rInt) (times_n (literal (587 / 1000)) gInt))
          (times_n (literal (114 / 1000)) bInt))
       (Fin 255)"

text \<open>Lines 425 to 428: a string of four code units is expanded, whatever it holds.\<close>

definition expand_short :: "string \<Rightarrow> string" where
  "expand_short bg =
     (if length bg = 4 then [CHR ''#'', bg ! 1, bg ! 1, bg ! 2, bg ! 2, bg ! 3, bg ! 3] else bg)"

text \<open>
  The argument is \<open>None\<close> for \<^verbatim>\<open>undefined\<close>; the empty string is falsy too. Destructuring
  the \<^verbatim>\<open>null\<close> of a failed match raises a \<^verbatim>\<open>TypeError\<close>.
\<close>

definition getTextColor :: "string option \<Rightarrow> error + string option" where
  "getTextColor backgroundColor =
     (case backgroundColor of
        None \<Rightarrow> Inr None
      | Some bg \<Rightarrow>
          if bg = [] then Inr None
          else
            (case match_rgb (expand_short bg) of
               None \<Rightarrow> Inl TypeError
             | Some (r, g, b) \<Rightarrow>
                 Inr (Some (if greater_n (luminance (parseInt16 r) (parseInt16 g) (parseInt16 b))
                                         (literal (1 / 2))
                            then ''000000'' else ''FFFFFF''))))"

text \<open>
  The specification's words for the same computation, in exact arithmetic: the value of
  a channel's two hexadecimal digits, and \<open>L = (0.299 R + 0.587 G + 0.114 B) / 255\<close>.
\<close>

definition hex_pair :: "char \<Rightarrow> char \<Rightarrow> nat" where
  "hex_pair a b = 16 * the (hex_digit a) + the (hex_digit b)"

definition luminance_exact :: "nat \<Rightarrow> nat \<Rightarrow> nat \<Rightarrow> rat" where
  "luminance_exact R G B =
     (299 / 1000 * of_nat R + 587 / 1000 * of_nat G + 114 / 1000 * of_nat B) / 255"

section \<open>Result tables\<close>

text \<open>
  The declarations of \<^verbatim>\<open>@grafana/data\<close> that \<open>toObject\<close> reads. \<open>'v\<close> is the type of
  the raw values. A \<^verbatim>\<open>FieldType\<close> other than the four the code tests carries its tag.
  What is optional in the source (\<^verbatim>\<open>?.\<close>, \<^verbatim>\<open>??\<close>) is an \<open>option\<close>. The display
  function receives the value read at the row, which is \<^verbatim>\<open>undefined\<close> (\<open>None\<close>) past
  the end of a shorter field.
\<close>

datatype FieldType = FT_time | FT_number | FT_boolean | FT_string | FT_other string

record DisplayValue =
  display_text :: string
  display_color :: "string option"

record LinkModel =
  link_title :: string
  href :: string

record cell_options =
  cell_type :: "string option"

record custom_config =
  custom_hidden :: "bool option"
  custom_width :: "int option"
  custom_align :: "string option"
  cellOptions :: "cell_options option"

record FieldConfig =
  unit :: "string option"
  custom :: "custom_config option"

record 'v Field =
  field_name :: string
  field_type :: FieldType
  config :: FieldConfig
  display :: "('v option \<Rightarrow> DisplayValue) option"
  getLinks :: "(nat \<Rightarrow> LinkModel list) option"
  "values" :: "'v list"

record 'v DataFrame =
  frame_name :: "string option"
  frame_fields :: "'v Field list"

text \<open>
  What \<open>toObject\<close> imports and does not define: \<^verbatim>\<open>getFieldDisplayName\<close>,
  \<^verbatim>\<open>systemDateFormats.fullDate\<close> and \<^verbatim>\<open>formattedValueToString\<close>.
\<close>

record 'v externals =
  getFieldDisplayName :: "'v Field \<Rightarrow> 'v DataFrame \<Rightarrow> string"
  fullDate :: string
  formattedValueToString :: "DisplayValue \<Rightarrow> string"

section \<open>The sheet\<close>

text \<open>
  The coercions \<^verbatim>\<open>new Date(v)\<close>, \<^verbatim>\<open>Number(v)\<close> and \<^verbatim>\<open>Boolean(v)\<close> are constructors
  applied to the raw value; \<open>Raw\<close> is the raw value itself and \<open>Undefined\<close> the initial
  \<^verbatim>\<open>value: undefined\<close>.
\<close>

datatype 'v CellValue =
  Undefined | NewDate "'v option" | ToNumber "'v option" | ToBoolean "'v option"
  | Text string | Raw 'v

record 'v DataCell =
  "value" :: "'v CellValue"
  link :: "LinkModel option"
  color :: "string option"
  background :: "string option"

record 'v DataColumn =
  name :: string
  data :: "'v DataCell list"
  hidden :: bool
  align :: "string option"
  type :: FieldType
  fmt :: "string option"
  width :: int

text \<open>
  A \<open>DataSheet\<close> is a JavaScript object: an association list from property names to
  columns, at most one entry per name. \<open>results[k]\<close> of an object literal also finds
  what \<^verbatim>\<open>Object.prototype\<close> provides, and all of that is truthy.
\<close>

type_synonym 'v DataSheet = "(string \<times> 'v DataColumn) list"

definition object_prototype :: "string list" where
  "object_prototype =
     [''constructor'', ''__defineGetter__'', ''__defineSetter__'', ''hasOwnProperty'',
      ''__lookupGetter__'', ''__lookupSetter__'', ''isPrototypeOf'', ''propertyIsEnumerable'',
      ''toString'', ''valueOf'', ''__proto__'', ''toLocaleString'']"

text \<open>
  \<^verbatim>\<open>results[`${i}`] = col\<close>. An object lists its integer keys in ascending order,
  whenever they were added, and every key of a sheet is a loop index: a key that is
  there keeps its place, a new one goes before the first greater key. \<open>key_index\<close>
  is the integer a key denotes.
\<close>

definition key_index :: "string \<Rightarrow> nat" where
  "key_index k = foldl (\<lambda>acc c. 10 * acc + (of_char c - 48)) 0 k"

fun set_index :: "nat \<Rightarrow> 'c \<Rightarrow> (string \<times> 'c) list \<Rightarrow> (string \<times> 'c) list" where
  "set_index i col [] = [(show_nat i, col)]"
| "set_index i col ((k, old) # rest) =
     (if k = show_nat i then (k, col) # rest
      else if i < key_index k then (show_nat i, col) # (k, old) # rest
      else (k, old) # set_index i col rest)"

text \<open>\<^verbatim>\<open>results[k]\<close> is truthy.\<close>

definition has_property :: "'v DataSheet \<Rightarrow> string \<Rightarrow> bool" where
  "has_property results k =
     (case map_of results k of None \<Rightarrow> List.member object_prototype k | Some _ \<Rightarrow> True)"

section \<open>\<open>toObject\<close>\<close>

text \<open>\<^verbatim>\<open>xs[i]\<close>, which is \<^verbatim>\<open>undefined\<close> out of range.\<close>

definition at_index :: "'a list \<Rightarrow> nat \<Rightarrow> 'a option" where
  "at_index xs i = (if i < length xs then Some (xs ! i) else None)"

text \<open>Lines 333 to 343: the format string of a new column.\<close>

definition column_fmt :: "'v externals \<Rightarrow> 'v Field \<Rightarrow> string option" where
  "column_fmt env f =
     (if field_type f = FT_time then
        (let hasTime = (case unit (config f) of None \<Rightarrow> False | Some u \<Rightarrow> includes_str u ''time:'')
         in if hasTime then map_option (\<lambda>u. replace u ''time:'' []) (unit (config f))
            else Some (fullDate env))
      else None)"

text \<open>
  Lines 345 to 353: the object literal. \<^verbatim>\<open>fieldConfig.custom?.hidden\<close> tolerates a
  configuration without \<^verbatim>\<open>custom\<close>; \<^verbatim>\<open>fieldConfig.custom.width\<close>, evaluated next, raises
  a \<^verbatim>\<open>TypeError\<close> there.
\<close>

definition new_column :: "'v externals \<Rightarrow> string \<Rightarrow> 'v Field \<Rightarrow> error + 'v DataColumn" where
  "new_column env fieldName f =
     (let fieldConfig = config f; fmt0 = column_fmt env f;
          hidden0 = (case custom fieldConfig of
                       None \<Rightarrow> False
                     | Some cu \<Rightarrow> (case custom_hidden cu of None \<Rightarrow> False | Some h \<Rightarrow> h))
      in case custom fieldConfig of
           None \<Rightarrow> Inl TypeError
         | Some cu \<Rightarrow>
             Inr \<lparr>name = fieldName, data = [],
                  hidden = hidden0,
                  align = (if custom_align cu = Some ''auto'' then None else custom_align cu),
                  type = field_type f,
                  fmt = fmt0,
                  width = (case custom_width cu of None \<Rightarrow> 150 | Some w \<Rightarrow> w)\<rparr>)"

text \<open>
  Lines 329 to 354, one round of the first inner loop: the guard looks \<open>results\<close> up
  under the field's display name, the assignment stores under the index.
\<close>

definition add_column ::
  "'v externals \<Rightarrow> 'v DataFrame \<Rightarrow> nat \<Rightarrow> 'v DataSheet \<Rightarrow> error + 'v DataSheet" where
  "add_column env series i results =
     (let fieldName = getFieldDisplayName env (frame_fields series ! i) series
      in if \<not> has_property results fieldName then
           (case new_column env fieldName (frame_fields series ! i) of
              Inl e \<Rightarrow> Inl e
            | Inr col \<Rightarrow> Inr (set_index i col results))
         else Inr results)"

text \<open>\<^verbatim>\<open>fields[j].config.custom?.cellOptions?.type\<close>, the subject of the switch.\<close>

definition option_type :: "'v Field \<Rightarrow> string option" where
  "option_type f = Option.bind (Option.bind (custom (config f)) cellOptions) cell_type"

text \<open>
  \<^verbatim>\<open>diplay?.color\<close> for the value read at row \<open>i\<close>: the colour the display function
  gives, if there is a display function and it gives one.
\<close>

definition displayed_color :: "'v Field \<Rightarrow> nat \<Rightarrow> string option" where
  "displayed_color f i =
     Option.bind (map_option (\<lambda>d. d (at_index (values f) i)) (display f)) display_color"

text \<open>Lines 362 to 409: the cell of field \<open>f\<close> at row \<open>i\<close>.\<close>

definition make_cell :: "'v externals \<Rightarrow> 'v Field \<Rightarrow> nat \<Rightarrow> error + 'v DataCell" where
  "make_cell env f i =
     (let v = at_index (values f) i;
          diplay = map_option (\<lambda>d. d v) (display f);
          value0 = Undefined;
          value1 = (if field_type f = FT_time then NewDate v else value0);
          value2 = (if field_type f = FT_number then ToNumber v else value1);
          value3 = (if field_type f = FT_boolean then ToBoolean v else value2);
          value4 = (if field_type f = FT_string
                    then (case diplay of
                            Some d \<Rightarrow> Text (formattedValueToString env d)
                          | None \<Rightarrow> (case v of None \<Rightarrow> Undefined | Some x \<Rightarrow> Raw x))
                    else value3);
          displayed = Option.bind diplay display_color;
          colored =
            (if option_type f = Some ''color-text'' then Inr (displayed, None)
             else if option_type f = Some ''color-background'' then
               (case getTextColor displayed of
                  Inl e \<Rightarrow> Inl e
                | Inr textColor \<Rightarrow> Inr (textColor, displayed))
             else Inr (None, None));
          links = (case getLinks f of None \<Rightarrow> [] | Some resolve \<Rightarrow> resolve i)
      in case colored of
           Inl e \<Rightarrow> Inl e
         | Inr (color3, background3) \<Rightarrow>
             Inr (if 0 < length links
                  then \<lparr>value = value4,
                        link = Some \<lparr>link_title = link_title (links ! 0), href = href (links ! 0)\<rparr>,
                        color = Some ''#3B5586'', background = background3\<rparr>
                  else \<lparr>value = value4, link = None, color = color3, background = background3\<rparr>))"

text \<open>
  Line 411: \<^verbatim>\<open>results[`${j}`].data.push(cellValue)\<close>, a \<^verbatim>\<open>TypeError\<close> when the sheet
  has no column \<open>j\<close>.
\<close>

definition push_cell ::
  "'v externals \<Rightarrow> 'v DataFrame \<Rightarrow> nat \<Rightarrow> nat \<Rightarrow> 'v DataSheet \<Rightarrow> error + 'v DataSheet" where
  "push_cell env series i j results =
     (case make_cell env (frame_fields series ! j) i of
        Inl e \<Rightarrow> Inl e
      | Inr cellValue \<Rightarrow>
          (case map_of results (show_nat j) of
             None \<Rightarrow> Inl TypeError
           | Some col \<Rightarrow>
               Inr (AList.update (show_nat j) (col\<lparr>data := data col @ [cellValue]\<rparr>) results)))"

text \<open>Lines 320 to 414: one round of the outer loop.\<close>

definition add_frame :: "'v externals \<Rightarrow> 'v DataFrame \<Rightarrow> 'v DataSheet \<Rightarrow> error + 'v DataSheet" where
  "add_frame env series results =
     (if length (frame_fields series) = 0 then Inr results
      else
        (case for_loop (add_column env series) [0..<length (frame_fields series)] results of
           Inl e \<Rightarrow> Inl e
         | Inr results1 \<Rightarrow>
             (let len = length (values (frame_fields series ! 0))
              in if 0 < len
                 then for_loop
                        (\<lambda>i. for_loop (push_cell env series i) [0..<length (frame_fields series)])
                        [0..<len] results1
                 else Inr results1)))"

text \<open>The argument is \<open>None\<close> when \<^verbatim>\<open>data\<close> is falsy.\<close>

definition toObject :: "'v externals \<Rightarrow> 'v DataFrame list option \<Rightarrow> error + 'v DataSheet" where
  "toObject env data0 =
     (case data0 of
        None \<Rightarrow> Inr []
      | Some frames \<Rightarrow> for_loop (\<lambda>s. add_frame env (frames ! s)) [0..<length frames] [])"


section \<open>The download functions\<close>

record panel =
  panel_id :: int
  panel_type :: string
  displayTitle :: string

record dashboard =
  title :: string
  panels :: "panel list"

text \<open>
  \<^verbatim>\<open>const panels = ids.length ? d.panels.filter((p) => ids.includes(p.id)) : d.panels;\<close>
\<close>

definition selected :: "dashboard \<Rightarrow> int list \<Rightarrow> panel list" where
  "selected d ids =
     (if length ids \<noteq> 0 then filter (\<lambda>p. List.member ids (panel_id p)) (panels d)
      else panels d)"

text \<open>
  \<^verbatim>\<open>for (let i = 0; i < panels.length; i++) { const panel = d.panels[i]; ... }\<close>
  The loop counts to the length of the selection and reads the panel from the
  dashboard's own list; the selection is never longer than that list. \<open>export\<close> is
  the loop body, which may reject; what it exports is appended to the output.
\<close>

definition export_panels ::
  "(nat \<Rightarrow> panel \<Rightarrow> error + 'a) \<Rightarrow> dashboard \<Rightarrow> int list \<Rightarrow> error + 'a list" where
  "export_panels export d ids =
     for_loop
       (\<lambda>i out. case export i (panels d ! i) of Inl e \<Rightarrow> Inl e | Inr x \<Rightarrow> Inr (out @ [x]))
       [0..<length (selected d ids)] []"

text \<open>
  \<open>current\<close> is \<^verbatim>\<open>getDashboardSrv().getCurrent()\<close>; \<open>waitForData\<close> is the promise of a
  panel's frames, resolved or rejected. \<open>downloadCsv\<close> saves one file per round, from
  the first frame (\<^verbatim>\<open>dataFrame[0]\<close>) and the panel's display title.
\<close>

record 'v csv_file =
  csv_title :: string
  csv_frame :: "'v DataFrame option"

definition downloadCsv ::
  "(panel \<Rightarrow> error + 'v DataFrame list) \<Rightarrow> dashboard option \<Rightarrow> int list
     \<Rightarrow> error + 'v csv_file list" where
  "downloadCsv waitForData current ids =
     (case current of
        None \<Rightarrow> Inr []
      | Some d \<Rightarrow>
          export_panels
            (\<lambda>i panel. case waitForData panel of
                          Inl e \<Rightarrow> Inl e
                        | Inr dataFrame \<Rightarrow>
                            Inr \<lparr>csv_title = displayTitle panel, csv_frame = at_index dataFrame 0\<rparr>)
            d ids)"

text \<open>
  \<open>downloadZip\<close> adds one entry per round, numbered from 1 and holding the CSV text of
  the panel's frames; the time stamp of the entry's name and the CSV encoder are outside
  the model.
\<close>

record 'v zip_entry =
  zip_number :: nat
  zip_frames :: "'v DataFrame list"

definition downloadZip ::
  "(panel \<Rightarrow> error + 'v DataFrame list) \<Rightarrow> dashboard option \<Rightarrow> int list
     \<Rightarrow> error + 'v zip_entry list" where
  "downloadZip waitForData current ids =
     (case current of
        None \<Rightarrow> Inr []
      | Some d \<Rightarrow>
          export_panels
            (\<lambda>i panel. case waitForData panel of
                          Inl e \<Rightarrow> Inl e
                        | Inr dataFrame \<Rightarrow> Inr \<lparr>zip_number = i + 1, zip_frames = dataFrame\<rparr>)
            d ids)"

text \<open>
  \<open>downloadXlsx\<close> adds one worksheet per round: an image for a panel that is not a
  table, the sheet of \<open>toObject\<close> otherwise. \<open>addWorksheet\<close> is the spreadsheet library's
  call, which throws for a name it refuses, before anything of the panel is read;
  \<open>imageResponseToBase64\<close> is the fetch of the panel's rendered image. The styling of
  the cells, handed to the library, is outside the model.
\<close>

datatype 'v sheet_content = Image string | Table "'v DataSheet"

record 'v worksheet =
  sheet_name :: string
  sheet_content :: "'v sheet_content"

definition downloadXlsx ::
  "'v externals \<Rightarrow> (string \<Rightarrow> error + unit) \<Rightarrow> (panel \<Rightarrow> error + 'v DataFrame list)
     \<Rightarrow> (panel \<Rightarrow> error + string) \<Rightarrow> dashboard option \<Rightarrow> int list
     \<Rightarrow> error + 'v worksheet list" where
  "downloadXlsx env addWorksheet waitForData imageResponseToBase64 current ids =
     (case current of
        None \<Rightarrow> Inr []
      | Some d \<Rightarrow>
          export_panels
            (\<lambda>i panel.
               let sheet = show_nat (i + 1) @ ''-'' @ displayTitle panel
               in case addWorksheet sheet of
                    Inl e \<Rightarrow> Inl e
                  | Inr _ \<Rightarrow>
                      if panel_type panel \<noteq> ''table'' then
                        (case imageResponseToBase64 panel of
                           Inl e \<Rightarrow> Inl e
                         | Inr base64 \<Rightarrow> Inr \<lparr>sheet_name = sheet, sheet_content = Image base64\<rparr>)
                      else
                        (case waitForData panel of
                           Inl e \<Rightarrow> Inl e
                         | Inr result \<Rightarrow>
                             (case toObject env (Some result) of
                                Inl e \<Rightarrow> Inl e
                              | Inr data1 \<Rightarrow>
                                  Inr \<lparr>sheet_name = sheet, sheet_content = Table data1\<rparr>)))
            d ids)"

section \<open>The export dialog\<close>

text \<open>
  \<^verbatim>\<open>ShareReport\<close>: the component's state, and \<^verbatim>\<open>window.grafanaRuntime\<close> as the dialog
  uses it, three functions whose promise resolves or rejects.
\<close>

datatype ReportType = csv | xlsx

record State =
  reportType :: ReportType
  zipped :: "bool option"
  loading :: bool

record grafanaRuntime =
  runtime_downloadCsv :: "int list \<Rightarrow> error + unit"
  runtime_downloadZip :: "int list \<Rightarrow> error + unit"
  runtime_downloadXlsx :: "int list \<Rightarrow> error + unit"

text \<open>\<open>initWindowRuntime\<close> installs the three download functions.\<close>

definition initWindowRuntime ::
  "'v externals \<Rightarrow> (string \<Rightarrow> error + unit) \<Rightarrow> (panel \<Rightarrow> error + 'v DataFrame list)
     \<Rightarrow> (panel \<Rightarrow> error + string) \<Rightarrow> dashboard option \<Rightarrow> grafanaRuntime" where
  "initWindowRuntime env addWorksheet waitForData imageResponseToBase64 current =
     \<lparr>runtime_downloadCsv = (\<lambda>ids. map_sum (\<lambda>e. e) (\<lambda>_. ()) (downloadCsv waitForData current ids)),
      runtime_downloadZip = (\<lambda>ids. map_sum (\<lambda>e. e) (\<lambda>_. ()) (downloadZip waitForData current ids)),
      runtime_downloadXlsx =
        (\<lambda>ids. map_sum (\<lambda>e. e) (\<lambda>_. ())
                 (downloadXlsx env addWorksheet waitForData imageResponseToBase64 current ids))\<rparr>"

text \<open>
  \<open>onDownload\<close>: the state the component is left in and the outcome of the handler's own
  promise. The first \<^verbatim>\<open>setState\<close> raises the flag; an \<^verbatim>\<open>await\<close> on a rejected
  promise throws out of the handler, and the statements after it do not run. The three
  calls pass no identifier. No other event of the dialog is interleaved.
\<close>

definition onDownload :: "grafanaRuntime option \<Rightarrow> State \<Rightarrow> State \<times> (error + unit)" where
  "onDownload runtime st =
     (let st1 = st\<lparr>loading := True\<rparr>;
          awaited =
            (case runtime of
               None \<Rightarrow> Inr ()
             | Some rt \<Rightarrow>
                 if reportType st = csv then
                   (if zipped st = Some True then runtime_downloadZip rt []
                    else runtime_downloadCsv rt [])
                 else runtime_downloadXlsx rt [])
      in case awaited of
           Inl e \<Rightarrow> (st1, Inl e)
         | Inr _ \<Rightarrow> (st1\<lparr>loading := False\<rparr>, Inr ()))"


section \<open>The specification's counts\<close>

text \<open>
  The row count of a table is the length of its first field; the specification sums it
  over the tables that have a field at a position.
\<close>

definition row_count :: "'v DataFrame \<Rightarrow> nat" where
  "row_count series = length (values (frame_fields series ! 0))"

definition expected_rows :: "'v DataFrame list \<Rightarrow> nat \<Rightarrow> nat" where
  "expected_rows frames j =
     sum_list (map row_count (filter (\<lambda>series. j < length (frame_fields series)) frames))"

section \<open>Example inputs\<close>

text \<open>
  The inputs the statements below are evaluated at. The display name of a field is its
  name and the formatted string of a display value is its text; the raw values are
  strings.
\<close>

definition example_externals :: "string externals" where
  "example_externals =
     \<lparr>getFieldDisplayName = (\<lambda>f series. field_name f),
      fullDate = ''YYYY-MM-DD HH:mm:ss'',
      formattedValueToString = display_text\<rparr>"

definition example_custom :: "string option \<Rightarrow> custom_config" where
  "example_custom cell =
     \<lparr>custom_hidden = None, custom_width = None, custom_align = Some ''auto'',
      cellOptions = map_option (\<lambda>t. \<lparr>cell_type = Some t\<rparr>) cell\<rparr>"

definition example_field :: "string \<Rightarrow> FieldType \<Rightarrow> string list \<Rightarrow> string Field" where
  "example_field n t vs =
     \<lparr>field_name = n, field_type = t,
      config = \<lparr>unit = None, custom = Some (example_custom None)\<rparr>,
      display = None, getLinks = None, values = vs\<rparr>"

definition example_frame :: "string Field list \<Rightarrow> string DataFrame" where
  "example_frame fs = \<lparr>frame_name = None, frame_fields = fs\<rparr>"

text \<open>A field whose display function colours every value with the value itself.\<close>

definition colored_field :: "string \<Rightarrow> string list \<Rightarrow> LinkModel list \<Rightarrow> string Field" where
  "colored_field cell vs links =
     \<lparr>field_name = ''status'', field_type = FT_string,
      config = \<lparr>unit = None, custom = Some (example_custom (Some cell))\<rparr>,
      display = Some (\<lambda>v. \<lparr>display_text = ''ok'', display_color = v\<rparr>),
      getLinks = Some (\<lambda>i. links), values = vs\<rparr>"

definition time_field :: "string option \<Rightarrow> string Field" where
  "time_field u =
     \<lparr>field_name = ''Time'', field_type = FT_time,
      config = \<lparr>unit = u, custom = Some (example_custom None)\<rparr>,
      display = None, getLinks = None, values = []\<rparr>"

definition bare_field :: "string Field" where
  "bare_field =
     \<lparr>field_name = ''a'', field_type = FT_string,
      config = \<lparr>unit = None, custom = None\<rparr>,
      display = None, getLinks = None, values = [''x'']\<rparr>"

definition example_dashboard :: dashboard where
  "example_dashboard =
     \<lparr>title = ''Sales'',
      panels = [\<lparr>panel_id = 1, panel_type = ''table'', displayTitle = ''first''\<rparr>,
                \<lparr>panel_id = 2, panel_type = ''table'', displayTitle = ''second''\<rparr>]\<rparr>"

text \<open>Every panel's data: one frame, named after the panel, without fields.\<close>

definition example_data :: "panel \<Rightarrow> error + string DataFrame list" where
  "example_data p = Inr [\<lparr>frame_name = Some (displayTitle p), frame_fields = []\<rparr>]"

text \<open>A library that accepts the name of every worksheet.\<close>

definition accepted :: "string \<Rightarrow> error + unit" where
  "accepted sheet = Inr ()"

definition timed_out :: "panel \<Rightarrow> error + string DataFrame list" where
  "timed_out p = Inl (Rejected ''Timeout exceeded, no data received'')"

section \<open>Rounding\<close>

text \<open>
  The exponent chosen by \<open>expo\<close> is that of the number: \<open>2 ^ e \<le> x < 2 ^ (e + 1)\<close>. So
  the rounded value is within \<open>2 ^ - 53\<close> of the number, relatively, and its mantissa has
  at most 53 bits.
\<close>

lemma expo_le:
  assumes "0 < x"
  shows "2 powi (expo x) \<le> x"
proof -
  obtain a b where q: "quotient_of x = (a, b)" by (cases "quotient_of x")
  have b: "0 < b" using q quotient_of_denom_pos by blast
  have x: "x = of_int a / of_int b" using q quotient_of_div by blast
  have a: "0 < a" using assms b x by (simp add: zero_less_divide_iff)
  define k where "k = bitlen a - bitlen b"
  have la: "(2::rat) powi (bitlen a - 1) \<le> of_int a"
  proof -
    have "2 ^ nat (bitlen a - 1) \<le> a" using bitlen_bounds [OF a] by simp
    then have "(of_int (2 ^ nat (bitlen a - 1)) :: rat) \<le> of_int a" by (simp only: of_int_le_iff)
    moreover have "0 \<le> bitlen a - 1" using a by (simp add: bitlen_alt_def)
    ultimately show ?thesis by (simp add: power_int_def)
  qed
  have lb: "of_int b \<le> (2::rat) powi (bitlen b)"
  proof -
    have "b < 2 ^ nat (bitlen b)" using bitlen_bounds [OF b] by simp
    then have "(of_int b :: rat) \<le> of_int (2 ^ nat (bitlen b))" by (simp only: of_int_le_iff)
    moreover have "0 \<le> bitlen b" by (rule bitlen_nonneg)
    ultimately show ?thesis by (simp add: power_int_def)
  qed
  have low: "(2::rat) powi (k - 1) \<le> x"
  proof -
    have "(2::rat) powi (k - 1) = 2 powi (bitlen a - 1) / 2 powi (bitlen b)"
      by (simp add: k_def power_int_diff)
    also have "\<dots> \<le> of_int a / 2 powi (bitlen b)"
      using la by (simp add: divide_right_mono)
    also have "\<dots> \<le> of_int a / of_int b"
      using lb a b by (simp add: divide_left_mono)
    finally show ?thesis using x by simp
  qed
  show ?thesis
    using low q by (simp add: expo_def k_def Let_def)
qed

lemma expo_upper:
  assumes "0 < x"
  shows "x < 2 powi (expo x + 1)"
proof -
  obtain a b where q: "quotient_of x = (a, b)" by (cases "quotient_of x")
  have b: "0 < b" using q quotient_of_denom_pos by blast
  have x: "x = of_int a / of_int b" using q quotient_of_div by blast
  have a: "0 < a" using assms b x by (simp add: zero_less_divide_iff)
  define k where "k = bitlen a - bitlen b"
  have la: "of_int a < (2::rat) powi (bitlen a)"
  proof -
    have "a < 2 ^ nat (bitlen a)" using bitlen_bounds [OF a] by simp
    then have "(of_int a :: rat) < of_int (2 ^ nat (bitlen a))" by (simp only: of_int_less_iff)
    moreover have "0 \<le> bitlen a" by (rule bitlen_nonneg)
    ultimately show ?thesis by (simp add: power_int_def)
  qed
  have lb: "(2::rat) powi (bitlen b - 1) \<le> of_int b"
  proof -
    have "2 ^ nat (bitlen b - 1) \<le> b" using bitlen_bounds [OF b] by simp
    then have "(of_int (2 ^ nat (bitlen b - 1)) :: rat) \<le> of_int b" by (simp only: of_int_le_iff)
    moreover have "0 \<le> bitlen b - 1" using b by (simp add: bitlen_alt_def)
    ultimately show ?thesis by (simp add: power_int_def)
  qed
  have up: "x < (2::rat) powi (k + 1)"
  proof -
    have "x = of_int a / of_int b" by (rule x)
    also have "\<dots> < 2 powi (bitlen a) / of_int b"
      using la b by (simp add: divide_strict_right_mono)
    also have "\<dots> \<le> 2 powi (bitlen a) / 2 powi (bitlen b - 1)"
      using lb b by (intro divide_left_mono) (simp_all add: zero_less_mult_iff)
    also have "\<dots> = 2 powi (k + 1)"
      by (simp add: k_def power_int_diff power_int_add)
    finally show ?thesis .
  qed
  show ?thesis
  proof (cases "2 powi k \<le> x")
    case True
    then show ?thesis using up q by (simp add: expo_def k_def Let_def)
  next
    case False
    then show ?thesis using q by (simp add: expo_def k_def Let_def)
  qed
qed

lemma round_even_err: "\<bar>of_int (round_even q) - q\<bar> \<le> 1 / 2"
proof -
  have "of_int \<lfloor>q\<rfloor> \<le> q" "q < of_int \<lfloor>q\<rfloor> + 1" by linarith+
  then show ?thesis
    by (auto simp: round_even_def Let_def abs_le_iff)
qed

lemma rd_err: "\<bar>rd x - x\<bar> \<le> \<bar>x\<bar> / 2 ^ 53"
proof (cases "x = 0")
  case True
  then show ?thesis by (simp add: rd_def)
next
  case False
  define u :: rat where "u = 2 powi (expo \<bar>x\<bar> - 52)"
  have u: "0 < u" by (simp add: u_def)
  have rd: "rd x = of_int (round_even (x / u)) * u"
    using False by (simp add: rd_def u_def Let_def)
  have "\<bar>rd x - x\<bar> = \<bar>of_int (round_even (x / u)) - x / u\<bar> * u"
  proof -
    have "rd x - x = (of_int (round_even (x / u)) - x / u) * u"
      using u by (simp add: rd field_simps)
    then show ?thesis using u by (simp add: abs_mult)
  qed
  also have "\<dots> \<le> 1 / 2 * u"
    using round_even_err [of "x / u"] u by (simp add: mult_right_mono)
  also have "\<dots> = 2 powi (expo \<bar>x\<bar>) / 2 ^ 53"
    by (simp add: u_def power_int_diff)
  also have "\<dots> \<le> \<bar>x\<bar> / 2 ^ 53"
    using expo_le [of "\<bar>x\<bar>"] False by (simp add: divide_right_mono)
  finally show ?thesis .
qed


lemma rd_mantissa:
  assumes "x \<noteq> 0"
  shows "\<exists>m. rd x = of_int m * 2 powi (expo \<bar>x\<bar> - 52) \<and> \<bar>m\<bar> \<le> 2 ^ 53"
proof -
  define u :: rat where "u = 2 powi (expo \<bar>x\<bar> - 52)"
  define m where "m = round_even (x / u)"
  have u: "0 < u" by (simp add: u_def)
  have rd: "rd x = of_int m * u"
    using assms by (simp add: rd_def u_def m_def Let_def)
  have "\<bar>x\<bar> < 2 powi (expo \<bar>x\<bar> + 1)"
    using assms by (intro expo_upper) simp
  also have "\<dots> = 2 ^ 53 * u"
    by (simp add: u_def power_int_diff power_int_add)
  finally have "\<bar>x\<bar> / u < 2 ^ 53"
    using u by (simp add: pos_divide_less_eq)
  then have q: "\<bar>x / u\<bar> < 2 ^ 53"
    using u by (simp add: abs_divide)
  have "\<bar>of_int m - x / u\<bar> \<le> 1 / 2"
    unfolding m_def by (rule round_even_err)
  with q have "\<bar>(of_int m :: rat)\<bar> < 2 ^ 53 + 1"
    by linarith
  then have "(of_int \<bar>m\<bar> :: rat) < of_int (2 ^ 53 + 1)"
    by simp
  then have "\<bar>m\<bar> < 2 ^ 53 + 1"
    by (simp only: of_int_less_iff)
  then have "\<bar>m\<bar> \<le> 2 ^ 53" by simp
  with rd show ?thesis unfolding u_def by blast
qed

lemma rd_lower:
  assumes "0 \<le> a" and "0 \<le> k" and "k \<le> 10" and "a * (1 - k / 10 ^ 9) \<le> x"
  shows "a * (1 - (k + 1) / 10 ^ 9) \<le> rd x"
proof -
  have k1: "0 \<le> 1 - k / 10 ^ 9" using assms(3) by simp
  have x0: "0 \<le> x" using assms(1,4) k1 by (meson mult_nonneg_nonneg order_trans)
  have "\<bar>rd x - x\<bar> \<le> x / 2 ^ 53" using rd_err [of x] x0 by (simp only: abs_of_nonneg)
  moreover have "x / 2 ^ 53 \<le> x / 10 ^ 9" using x0 by (intro divide_left_mono) simp_all
  ultimately have d: "\<bar>rd x - x\<bar> \<le> x / 10 ^ 9" by linarith
  have e: "x * (1 - 1 / 10 ^ 9) = x - x / 10 ^ 9" by (simp add: right_diff_distrib)
  have "a * (1 - (k + 1) / 10 ^ 9) \<le> a * ((1 - k / 10 ^ 9) * (1 - 1 / 10 ^ 9))"
    using assms(1,2) by (intro mult_left_mono) (simp_all add: field_simps)
  also have "\<dots> = a * (1 - k / 10 ^ 9) * (1 - 1 / 10 ^ 9)" by (simp only: mult.assoc)
  also have "\<dots> \<le> x * (1 - 1 / 10 ^ 9)"
    using assms(4) by (intro mult_right_mono) simp_all
  also have "\<dots> \<le> rd x" using d e by linarith
  finally show ?thesis .
qed

lemma rd_upper:
  assumes "0 \<le> x" and "0 \<le> k" and "k \<le> 10" and "x \<le> a * (1 + k / 10 ^ 9)"
  shows "rd x \<le> a * (1 + (k + 2) / 10 ^ 9)"
proof -
  have k1: "0 < 1 + k / 10 ^ 9" using assms(2) by (simp add: add_pos_nonneg)
  have a0: "0 \<le> a"
  proof (rule ccontr)
    assume "\<not> 0 \<le> a"
    then have "a * (1 + k / 10 ^ 9) < 0" using k1 by (intro mult_neg_pos) simp_all
    with assms(1,4) show False by linarith
  qed
  have "\<bar>rd x - x\<bar> \<le> x / 2 ^ 53" using rd_err [of x] assms(1) by (simp only: abs_of_nonneg)
  moreover have "x / 2 ^ 53 \<le> x / 10 ^ 9" using assms(1) by (intro divide_left_mono) simp_all
  ultimately have d: "\<bar>rd x - x\<bar> \<le> x / 10 ^ 9" by linarith
  have e: "x * (1 + 1 / 10 ^ 9) = x + x / 10 ^ 9" by (simp add: distrib_left)
  have "rd x \<le> x * (1 + 1 / 10 ^ 9)" using d e by linarith
  also have "\<dots> \<le> a * (1 + k / 10 ^ 9) * (1 + 1 / 10 ^ 9)"
    using assms(4) by (intro mult_right_mono) simp_all
  also have "\<dots> = a * ((1 + k / 10 ^ 9) * (1 + 1 / 10 ^ 9))" by (simp only: mult.assoc)
  also have "\<dots> \<le> a * (1 + (k + 2) / 10 ^ 9)"
    using a0 assms(2,3) by (intro mult_left_mono) (simp_all add: field_simps)
  finally show ?thesis .
qed

lemma rd_nonneg: "0 \<le> x \<Longrightarrow> 0 \<le> rd x"
  using rd_lower [of 0 0 x] by simp

text \<open>
  The luminance as the code computes it, with its six roundings, against the exact
  value: the relative error stays below \<open>10 ^ - 8\<close>, and the nearest exact value to one
  half that is not one half is \<open>1 / 255000\<close> away.
\<close>

lemma rd_half: "rd (1 / 2) = 1 / 2"
  by code_simp

lemma luminance_Fin:
  "luminance (Fin r) (Fin g) (Fin b) =
     Fin (rd (rd (rd (rd (rd (299 / 1000) * r) + rd (rd (587 / 1000) * g)) + rd (rd (114 / 1000) * b)) / 255))"
  by (simp add: luminance_def literal_def)

lemma coeff_lower:
  assumes "0 \<le> c" and "0 \<le> r"
  shows "c * r * (1 - 2 / 10 ^ 9) \<le> rd (rd c * r)"
proof -
  have "c * (1 - (0 + 1) / 10 ^ 9) \<le> rd c"
    using assms(1) by (intro rd_lower) simp_all
  then have "c * (1 - (0 + 1) / 10 ^ 9) * r \<le> rd c * r"
    using assms(2) by (rule mult_right_mono)
  then have "c * r * (1 - 1 / 10 ^ 9) \<le> rd c * r"
    by (simp add: mult_ac)
  then have "c * r * (1 - (1 + 1) / 10 ^ 9) \<le> rd (rd c * r)"
    using assms by (intro rd_lower) simp_all
  then show ?thesis by simp
qed

lemma coeff_upper:
  assumes "0 \<le> c" and "0 \<le> r"
  shows "rd (rd c * r) \<le> c * r * (1 + 4 / 10 ^ 9)"
proof -
  have c: "rd c \<le> c * (1 + (0 + 2) / 10 ^ 9)"
    using assms(1) by (intro rd_upper) simp_all
  then have "rd c * r \<le> c * (1 + (0 + 2) / 10 ^ 9) * r"
    using assms(2) by (rule mult_right_mono)
  then have "rd c * r \<le> c * r * (1 + 2 / 10 ^ 9)"
    by (simp add: mult_ac)
  moreover have "0 \<le> rd c * r" using assms by (simp add: rd_nonneg)
  ultimately have "rd (rd c * r) \<le> c * r * (1 + (2 + 2) / 10 ^ 9)"
    by (intro rd_upper) simp_all
  then show ?thesis by simp
qed


lemma sum_lower:
  assumes "0 \<le> A" and "0 \<le> B" and "0 \<le> C"
    and "A * (1 - 2 / 10 ^ 9) \<le> p1" and "B * (1 - 2 / 10 ^ 9) \<le> p2"
    and "C * (1 - 2 / 10 ^ 9) \<le> p3"
  shows "(A + B + C) / 255 * (1 - 5 / 10 ^ 9) \<le> rd (rd (rd (p1 + p2) + p3) / 255)"
proof -
  have "(A + B) * (1 - 2 / 10 ^ 9) \<le> p1 + p2"
    unfolding distrib_right using assms(4,5) by linarith
  then have "(A + B) * (1 - (2 + 1) / 10 ^ 9) \<le> rd (p1 + p2)"
    using assms(1,2) by (intro rd_lower) simp_all
  then have s1: "(A + B) * (1 - 3 / 10 ^ 9) \<le> rd (p1 + p2)" by simp
  have c: "C * (1 - 3 / 10 ^ 9) \<le> C * (1 - 2 / 10 ^ 9)"
    using assms(3) by (intro mult_left_mono) simp_all
  have "(A + B + C) * (1 - 3 / 10 ^ 9) \<le> rd (p1 + p2) + p3"
    unfolding distrib_right using c s1 [unfolded distrib_right] assms(6) by linarith
  then have "(A + B + C) * (1 - (3 + 1) / 10 ^ 9) \<le> rd (rd (p1 + p2) + p3)"
    using assms(1,2,3) by (intro rd_lower) simp_all
  then have "(A + B + C) * (1 - 4 / 10 ^ 9) / 255 \<le> rd (rd (p1 + p2) + p3) / 255"
    by (simp add: divide_right_mono)
  then have "(A + B + C) / 255 * (1 - 4 / 10 ^ 9) \<le> rd (rd (p1 + p2) + p3) / 255"
    by simp
  then have "(A + B + C) / 255 * (1 - (4 + 1) / 10 ^ 9) \<le> rd (rd (rd (p1 + p2) + p3) / 255)"
    using assms(1,2,3) by (intro rd_lower) simp_all
  then show ?thesis by simp
qed

lemma sum_upper:
  assumes "0 \<le> p1" and "0 \<le> p2" and "0 \<le> p3" and "0 \<le> C"
    and "p1 \<le> A * (1 + 4 / 10 ^ 9)" and "p2 \<le> B * (1 + 4 / 10 ^ 9)"
    and "p3 \<le> C * (1 + 4 / 10 ^ 9)"
  shows "rd (rd (rd (p1 + p2) + p3) / 255) \<le> (A + B + C) / 255 * (1 + 10 / 10 ^ 9)"
proof -
  have "p1 + p2 \<le> (A + B) * (1 + 4 / 10 ^ 9)"
    unfolding distrib_right using assms(5,6) by linarith
  then have "rd (p1 + p2) \<le> (A + B) * (1 + (4 + 2) / 10 ^ 9)"
    using assms(1,2) by (intro rd_upper) simp_all
  then have s1: "rd (p1 + p2) \<le> (A + B) * (1 + 6 / 10 ^ 9)" by simp
  have s0: "0 \<le> rd (p1 + p2)" using assms(1,2) by (simp add: rd_nonneg)
  have c: "C * (1 + 4 / 10 ^ 9) \<le> C * (1 + 6 / 10 ^ 9)"
    using assms(4) by (intro mult_left_mono) simp_all
  have "rd (p1 + p2) + p3 \<le> (A + B + C) * (1 + 6 / 10 ^ 9)"
    unfolding distrib_right using c s1 [unfolded distrib_right] assms(7) by linarith
  then have "rd (rd (p1 + p2) + p3) \<le> (A + B + C) * (1 + (6 + 2) / 10 ^ 9)"
    using s0 assms(3) by (intro rd_upper) simp_all
  then have "rd (rd (p1 + p2) + p3) / 255 \<le> (A + B + C) * (1 + 8 / 10 ^ 9) / 255"
    by (simp add: divide_right_mono)
  then have "rd (rd (p1 + p2) + p3) / 255 \<le> (A + B + C) / 255 * (1 + 8 / 10 ^ 9)"
    by simp
  moreover have "0 \<le> rd (rd (p1 + p2) + p3) / 255"
    using s0 assms(3) by (simp add: rd_nonneg)
  ultimately have "rd (rd (rd (p1 + p2) + p3) / 255) \<le> (A + B + C) / 255 * (1 + (8 + 2) / 10 ^ 9)"
    by (intro rd_upper) simp_all
  then show ?thesis by simp
qed

lemma luminance_value:
  "\<exists>L. luminance (Fin (of_nat R)) (Fin (of_nat G)) (Fin (of_nat B)) = Fin L
       \<and> luminance_exact R G B * (1 - 5 / 10 ^ 9) \<le> L
       \<and> L \<le> luminance_exact R G B * (1 + 10 / 10 ^ 9)"
proof -
  let ?p1 = "rd (rd (299 / 1000) * of_nat R)"
  let ?p2 = "rd (rd (587 / 1000) * of_nat G)"
  let ?p3 = "rd (rd (114 / 1000) * of_nat B)"
  let ?L = "rd (rd (rd (?p1 + ?p2) + ?p3) / 255)"
  have "luminance (Fin (of_nat R)) (Fin (of_nat G)) (Fin (of_nat B)) = Fin ?L"
    by (rule luminance_Fin)
  moreover have "luminance_exact R G B * (1 - 5 / 10 ^ 9) \<le> ?L"
    unfolding luminance_exact_def
    by (intro sum_lower coeff_lower) simp_all
  moreover have "?L \<le> luminance_exact R G B * (1 + 10 / 10 ^ 9)"
    unfolding luminance_exact_def
    by (intro sum_upper coeff_upper rd_nonneg mult_nonneg_nonneg) simp_all
  ultimately show ?thesis by blast
qed

lemma luminance_gt:
  assumes "luminance_exact R G B \<noteq> 1 / 2"
  shows "greater_n (luminance (Fin (of_nat R)) (Fin (of_nat G)) (Fin (of_nat B))) (literal (1 / 2))
         = (1 / 2 < luminance_exact R G B)"
proof -
  define N where "N = 299 * R + 587 * G + 114 * B"
  have ex: "luminance_exact R G B = of_nat N / 255000"
    by (simp add: luminance_exact_def N_def field_simps)
  obtain L where L: "luminance (Fin (of_nat R)) (Fin (of_nat G)) (Fin (of_nat B)) = Fin L"
    and lo: "luminance_exact R G B * (1 - 5 / 10 ^ 9) \<le> L"
    and hi: "L \<le> luminance_exact R G B * (1 + 10 / 10 ^ 9)"
    using luminance_value by blast
  have g: "greater_n (Fin L) (literal (1 / 2)) = (1 / 2 < L)"
    by (simp add: literal_def rd_half)
  have "N \<noteq> 127500" using assms ex by auto
  then consider "127501 \<le> N" | "N \<le> 127499" by linarith
  then show ?thesis
  proof cases
    case 1
    then have "(127501 :: rat) \<le> of_nat N" by (metis of_nat_le_iff of_nat_numeral)
    then have "127501 / 255000 \<le> luminance_exact R G B" by (simp add: ex)
    then have "127501 / 255000 * (1 - 5 / 10 ^ 9) \<le> luminance_exact R G B * (1 - 5 / 10 ^ 9)"
      by (intro mult_right_mono) simp_all
    moreover have "(1 :: rat) / 2 < 127501 / 255000 * (1 - 5 / 10 ^ 9)" by simp
    ultimately have "1 / 2 < L" "1 / 2 < luminance_exact R G B"
      using lo \<open>127501 / 255000 \<le> luminance_exact R G B\<close> by linarith+
    then show ?thesis by (simp add: L g)
  next
    case 2
    then have "of_nat N \<le> (127499 :: rat)" by (metis of_nat_le_iff of_nat_numeral)
    then have u: "luminance_exact R G B \<le> 127499 / 255000" by (simp add: ex)
    then have "luminance_exact R G B * (1 + 10 / 10 ^ 9) \<le> 127499 / 255000 * (1 + 10 / 10 ^ 9)"
      by (intro mult_right_mono) simp_all
    moreover have "127499 / 255000 * (1 + 10 / 10 ^ 9) < (1 :: rat) / 2" by simp
    ultimately have "\<not> 1 / 2 < L" "\<not> 1 / 2 < luminance_exact R G B"
      using hi u by linarith+
    then show ?thesis by (simp add: L g)
  qed
qed


section \<open>Hexadecimal colours\<close>

lemma is_hex_cases:
  "is_hex c \<Longrightarrow> c \<in> set ''0123456789abcdefABCDEF''"
  by (simp add: is_hex_def hex_digit_def split: if_splits)

lemma hex_plain:
  assumes "is_hex c"
  shows "\<not> is_white_space c" and "\<not> line_terminator c" and "c \<noteq> CHR ''-''" and "c \<noteq> CHR ''+''"
    and "c \<noteq> CHR ''x''" and "c \<noteq> CHR ''X''"
  using is_hex_cases [OF assms] by (auto simp: is_white_space_def line_terminator_def)

lemma parseInt16_hex:
  assumes "is_hex a" and "is_hex b"
  shows "parseInt16 [a, b] = Fin (of_nat (hex_pair a b))"
  using assms hex_plain [OF assms(1)] hex_plain [OF assms(2)]
  by (simp add: parseInt16_def hex_value_def hex_pair_def Let_def)

lemma match_rgb_hex:
  assumes "is_hex r1" "is_hex r2" "is_hex g1" "is_hex g2" "is_hex b1" "is_hex b2"
  shows "match_rgb [CHR ''#'', r1, r2, g1, g2, b1, b2] = Some ([r1, r2], [g1, g2], [b1, b2])"
  using assms by (simp add: match_rgb_def hex_plain)

lemma getTextColor_computed:
  assumes "is_hex r1" "is_hex r2" "is_hex g1" "is_hex g2" "is_hex b1" "is_hex b2"
  shows "getTextColor (Some [CHR ''#'', r1, r2, g1, g2, b1, b2]) =
           Inr (Some (if greater_n
                           (luminance (Fin (of_nat (hex_pair r1 r2))) (Fin (of_nat (hex_pair g1 g2)))
                              (Fin (of_nat (hex_pair b1 b2))))
                           (literal (1 / 2))
                      then ''000000'' else ''FFFFFF''))"
proof -
  have "getTextColor (Some [CHR ''#'', r1, r2, g1, g2, b1, b2]) =
          Inr (Some (if greater_n (luminance (parseInt16 [r1, r2]) (parseInt16 [g1, g2]) (parseInt16 [b1, b2]))
                                  (literal (1 / 2))
                     then ''000000'' else ''FFFFFF''))"
    using match_rgb_hex [OF assms] by (simp add: getTextColor_def expand_short_def)
  then show ?thesis
    by (simp only: parseInt16_hex [OF assms(1,2)] parseInt16_hex [OF assms(3,4)]
        parseInt16_hex [OF assms(5,6)])
qed

lemma getTextColor_six:
  assumes "is_hex r1" "is_hex r2" "is_hex g1" "is_hex g2" "is_hex b1" "is_hex b2"
    and "luminance_exact (hex_pair r1 r2) (hex_pair g1 g2) (hex_pair b1 b2) \<noteq> 1 / 2"
  shows "getTextColor (Some [CHR ''#'', r1, r2, g1, g2, b1, b2]) =
           Inr (Some (if 1 / 2 < luminance_exact (hex_pair r1 r2) (hex_pair g1 g2) (hex_pair b1 b2)
                      then ''000000'' else ''FFFFFF''))"
  using getTextColor_computed [OF assms(1-6)]
  by (simp only: luminance_gt [OF assms(7)])

lemma getTextColor_three:
  "getTextColor (Some [CHR ''#'', r, g, b]) = getTextColor (Some [CHR ''#'', r, r, g, g, b, b])"
  by (simp add: getTextColor_def expand_short_def)

lemma getTextColor_white: "getTextColor (Some ''#FFFFFF'') = Inr (Some ''000000'')"
proof -
  have h: "is_hex CHR ''F''" by (simp add: is_hex_def hex_digit_def)
  have p: "hex_pair CHR ''F'' CHR ''F'' = 255" by (simp add: hex_pair_def hex_digit_def)
  show ?thesis
    using getTextColor_six [OF h h h h h h] by (simp add: p luminance_exact_def)
qed

lemma getTextColor_black: "getTextColor (Some ''#000000'') = Inr (Some ''FFFFFF'')"
proof -
  have h: "is_hex CHR ''0''" by (simp add: is_hex_def hex_digit_def)
  have p: "hex_pair CHR ''0'' CHR ''0'' = 0" by (simp add: hex_pair_def hex_digit_def)
  show ?thesis
    using getTextColor_six [OF h h h h h h] by (simp add: p luminance_exact_def)
qed

lemma getTextColor_short_white: "getTextColor (Some ''#fff'') = Inr (Some ''000000'')"
proof -
  have h: "is_hex CHR ''f''" by (simp add: is_hex_def hex_digit_def)
  have p: "hex_pair CHR ''f'' CHR ''f'' = 255" by (simp add: hex_pair_def hex_digit_def)
  show ?thesis
    using getTextColor_six [OF h h h h h h] by (simp add: p luminance_exact_def getTextColor_three)
qed

section \<open>Errors of the loops\<close>

text \<open>
  \<open>toObject\<close> raises nothing but a \<^verbatim>\<open>TypeError\<close>, and a loop one of whose rounds fails
  on every state fails as a whole.
\<close>

lemma for_loop_error:
  assumes "\<And>k s e. body k s = Inl e \<Longrightarrow> e = TypeError"
  shows "for_loop body ks s = Inl e \<Longrightarrow> e = TypeError"
proof (induction ks arbitrary: s)
  case Nil
  then show ?case by simp
next
  case (Cons k ks)
  then show ?case
    using assms by (cases "body k s") auto
qed

lemma for_loop_fails:
  assumes "k \<in> set ks" and "\<And>s. body k s = Inl TypeError"
    and "\<And>j s e. body j s = Inl e \<Longrightarrow> e = TypeError"
  shows "for_loop body ks s = Inl TypeError"
  using assms(1)
proof (induction ks arbitrary: s)
  case Nil
  then show ?case by simp
next
  case (Cons j ks)
  show ?case
  proof (cases "body j s")
    case (Inl e)
    then show ?thesis using assms(3) by auto
  next
    case (Inr s')
    then have "j \<noteq> k" using assms(2) by auto
    then show ?thesis using Cons Inr by simp
  qed
qed

lemma getTextColor_error: "getTextColor bg = Inl e \<Longrightarrow> e = TypeError"
  by (auto simp: getTextColor_def split: option.splits if_splits prod.splits)

lemma make_cell_error: "make_cell env f i = Inl e \<Longrightarrow> e = TypeError"
  by (auto simp: make_cell_def Let_def split: sum.splits if_splits prod.splits dest: getTextColor_error)

lemma new_column_error: "new_column env n f = Inl e \<Longrightarrow> e = TypeError"
  by (auto simp: new_column_def Let_def split: option.splits)

lemma add_column_error: "add_column env series i results = Inl e \<Longrightarrow> e = TypeError"
  by (auto simp: add_column_def Let_def split: if_splits sum.splits dest: new_column_error)

lemma push_cell_error: "push_cell env series i j results = Inl e \<Longrightarrow> e = TypeError"
  by (auto simp: push_cell_def split: sum.splits option.splits dest: make_cell_error)

lemma columns_error: "for_loop (add_column env series) ks r = Inl e \<Longrightarrow> e = TypeError"
  using for_loop_error [of "add_column env series" ks r e] add_column_error by blast

lemma row_error: "for_loop (push_cell env series i) ks r = Inl e \<Longrightarrow> e = TypeError"
  using for_loop_error [of "push_cell env series i" ks r e] push_cell_error by blast

lemma rows_error:
  "for_loop (\<lambda>i. for_loop (push_cell env series i) js) ks r = Inl e \<Longrightarrow> e = TypeError"
  using for_loop_error [of "\<lambda>i. for_loop (push_cell env series i) js" ks r e] row_error by blast

lemma add_frame_error: "add_frame env series results = Inl e \<Longrightarrow> e = TypeError"
  unfolding add_frame_def Let_def
  by (auto split: if_splits sum.splits dest: columns_error rows_error)

lemma make_cell_malformed:
  assumes "option_type f = Some ''color-background''"
    and "displayed_color f i = Some bg" and "bg \<noteq> []" and "match_rgb (expand_short bg) = None"
  shows "make_cell env f i = Inl TypeError"
  using assms by (simp add: make_cell_def displayed_color_def Let_def getTextColor_def)

lemma add_frame_malformed:
  assumes "j < length (frame_fields series)"
    and "i < length (values (frame_fields series ! 0))"
    and "make_cell env (frame_fields series ! j) i = Inl TypeError"
  shows "add_frame env series results = Inl TypeError"
proof -
  let ?n = "length (frame_fields series)"
  have cell: "\<And>s. push_cell env series i j s = Inl TypeError"
    using assms(3) by (simp add: push_cell_def)
  have row: "\<And>s. for_loop (push_cell env series i) [0..<?n] s = Inl TypeError"
    using assms(1) by (intro for_loop_fails [of j] cell push_cell_error) simp_all
  have all: "\<And>s. for_loop (\<lambda>k. for_loop (push_cell env series k) [0..<?n])
               [0..<length (values (frame_fields series ! 0))] s = Inl TypeError"
    using assms(2) by (intro for_loop_fails [of i] row row_error) simp_all
  show ?thesis
    using assms(1,2) all
    by (auto simp: add_frame_def Let_def split: sum.splits dest: columns_error)
qed

section \<open>Strings\<close>

lemma includes_str_sublist: "includes_str s pat = sublist pat s"
  by (induction s) (auto simp: sublist_Cons_right)

lemma replace_prefix: "prefix pat s \<Longrightarrow> replace s pat rep = rep @ drop (length pat) s"
  by (cases s) auto

lemma includes_str_prefix: "prefix pat s \<Longrightarrow> includes_str s pat"
  by (cases s) auto

lemma selected_length: "length (selected d ids) \<le> length (panels d)"
  by (simp add: selected_def)


section \<open>What the loops over the panels export\<close>

text \<open>
  When no panel's data is rejected, a download exports the leading panels of the
  dashboard, as many as the selection has; with no identifier that is every panel.
\<close>

lemma for_loop_append:
  assumes "\<And>i out. body i out = Inr (out @ [g i])"
  shows "for_loop body ks acc = Inr (acc @ map g ks)"
  by (induction ks arbitrary: acc) (simp_all add: assms)

lemma export_panels_leading:
  assumes "\<And>i p. export i p = Inr (g i p)"
  shows "export_panels export d ids =
           Inr (map (\<lambda>i. g i (panels d ! i)) [0..<length (selected d ids)])"
  unfolding export_panels_def
  using for_loop_append [of "\<lambda>i out. case export i (panels d ! i) of Inl e \<Rightarrow> Inl e | Inr x \<Rightarrow> Inr (out @ [x])"
      "\<lambda>i. g i (panels d ! i)" "[0..<length (selected d ids)]" "[]"]
  by (simp add: assms)

lemma map_nth_take:
  "k \<le> length xs \<Longrightarrow> map (\<lambda>i. f (xs ! i)) [0..<k] = map f (take k xs)"
  by (induction k) (simp_all add: take_Suc_conv_app_nth)

lemma downloadCsv_leading:
  assumes "\<And>p. waitForData p = Inr (frames p)"
  shows "map_sum id (map csv_title) (downloadCsv waitForData (Some d) ids)
           = Inr (map displayTitle (take (length (selected d ids)) (panels d)))"
proof -
  have "downloadCsv waitForData (Some d) ids =
          Inr (map (\<lambda>i. \<lparr>csv_title = displayTitle (panels d ! i), csv_frame = at_index (frames (panels d ! i)) 0\<rparr>)
                 [0..<length (selected d ids)])"
    unfolding downloadCsv_def
    by (simp add: assms
        export_panels_leading [of _ "\<lambda>i p. \<lparr>csv_title = displayTitle p, csv_frame = at_index (frames p) 0\<rparr>"])
  then have "map_sum id (map csv_title) (downloadCsv waitForData (Some d) ids)
               = Inr (map (\<lambda>i. displayTitle (panels d ! i)) [0..<length (selected d ids)])"
    by (simp add: comp_def)
  then show ?thesis
    by (simp only: map_nth_take [OF selected_length])
qed

section \<open>Columns and the dialog, where they work\<close>

text \<open>
  With a \<^verbatim>\<open>custom\<close> block the column is built and has the defaults. \<open>onDownload\<close>
  lowers the flag when the download resolves, and leaves it raised when it rejects.
\<close>

lemma new_column_defaults:
  assumes "custom (config f) = Some cu"
  shows "\<exists>col. new_column env n f = Inr col
           \<and> hidden col = (case custom_hidden cu of None \<Rightarrow> False | Some h \<Rightarrow> h)
           \<and> align col = (if custom_align cu = Some ''auto'' then None else custom_align cu)
           \<and> width col = (case custom_width cu of None \<Rightarrow> 150 | Some w \<Rightarrow> w)"
  using assms by (simp add: new_column_def Let_def)

lemma onDownload_resolved:
  assumes "runtime = None \<or> (\<exists>rt. runtime = Some rt \<and> runtime_downloadCsv rt [] = Inr ()
             \<and> runtime_downloadZip rt [] = Inr () \<and> runtime_downloadXlsx rt [] = Inr ())"
  shows "onDownload runtime st = (st\<lparr>loading := False\<rparr>, Inr ())"
  using assms by (auto simp: onDownload_def Let_def)

lemma onDownload_rejected:
  assumes "runtime_downloadCsv rt [] = Inl e" and "runtime_downloadZip rt [] = Inl e"
    and "runtime_downloadXlsx rt [] = Inl e"
  shows "onDownload (Some rt) st = (st\<lparr>loading := True\<rparr>, Inl e)"
  using assms by (auto simp: onDownload_def Let_def)

section \<open>The claims\<close>

text \<open>
  C1. The specification: when no table has an empty field list and the fields of a table
  have equal length, the sheet of \<open>toObject\<close> has as many columns as the longest field
  list, and the cells of a column number the sum of the row counts of the tables that
  have a field at its position. The code: two tables of one field named \<^verbatim>\<open>a\<close> and one
  row each give a column of one cell, the later table's, where the sum is two. The guard
  of line 330 looks the sheet up under the display name and line 345 stores under the
  index, so the later table finds no column and starts a new one with no cells.
\<close>

theorem toObject_rows_of_earlier_frames:
  "expected_rows [example_frame [example_field ''a'' FT_string [''x'']],
                  example_frame [example_field ''a'' FT_string [''y'']]] 0 = 2
   \<and> toObject example_externals
       (Some [example_frame [example_field ''a'' FT_string [''x'']],
              example_frame [example_field ''a'' FT_string [''y'']]])
     = Inr [(''0'',
             \<lparr>name = ''a'',
              data = [\<lparr>value = Raw ''y'', link = None, color = None, background = None\<rparr>],
              hidden = False, align = None, type = FT_string, fmt = None, width = 150\<rparr>)]"
  by code_simp

text \<open>
  C2. The specification: the metadata stored at a position is that of the field of the
  first table that has one there, and a later table leaves it unchanged. The code: after
  a table with the string field \<^verbatim>\<open>a\<close> and a table with the number field \<^verbatim>\<open>b\<close>, the
  column at position 0 has the name and the type of \<^verbatim>\<open>b\<close>; the column built from
  \<^verbatim>\<open>a\<close> is gone.
\<close>

theorem toObject_metadata_of_later_frame:
  "new_column example_externals ''a'' (example_field ''a'' FT_string [''x''])
     = Inr \<lparr>name = ''a'', data = [], hidden = False, align = None, type = FT_string,
            fmt = None, width = 150\<rparr>
   \<and> toObject example_externals
       (Some [example_frame [example_field ''a'' FT_string [''x'']],
              example_frame [example_field ''b'' FT_number [''y'']]])
     = Inr [(''0'',
             \<lparr>name = ''b'',
              data = [\<lparr>value = ToNumber (Some ''y''), link = None, color = None,
                       background = None\<rparr>],
              hidden = False, align = None, type = FT_number, fmt = None, width = 150\<rparr>)]"
  by code_simp

text \<open>
  C3. The specification: with a list of identifiers that is not empty, \<open>downloadCsv\<close>,
  \<open>downloadZip\<close> and \<open>downloadXlsx\<close> export the panels whose identifiers are in the list.
  The code: on a dashboard with the panels 1 (\<^verbatim>\<open>first\<close>) and 2 (\<^verbatim>\<open>second\<close>) and the list
  \<open>[2]\<close>, the selection is the panel \<^verbatim>\<open>second\<close> and each of the three functions exports
  the panel \<^verbatim>\<open>first\<close>: the loop reads \<^verbatim>\<open>d.panels[i]\<close>, not \<^verbatim>\<open>panels[i]\<close>.
\<close>

theorem download_exports_leading_panels:
  "map displayTitle (selected example_dashboard [2]) = [''second'']
   \<and> map_sum id (map csv_title) (downloadCsv example_data (Some example_dashboard) [2])
       = Inr [''first'']
   \<and> map_sum id (map (map frame_name \<circ> zip_frames))
         (downloadZip example_data (Some example_dashboard) [2])
       = Inr [[Some ''first'']]
   \<and> map_sum id (map sheet_name)
         (downloadXlsx example_externals accepted example_data (\<lambda>p. Inr [])
            (Some example_dashboard) [2])
       = Inr [''1-first'']"
  by code_simp

text \<open>
  C4, as the specification has it: a field whose type is none of time, number, boolean
  and string resolves to its raw value. It fails: the cell of a field of another type
  with the raw value \<^verbatim>\<open>x\<close> has the value \<^verbatim>\<open>undefined\<close>.
\<close>

theorem make_cell_other_type_counterexample:
  "at_index (values (example_field ''a'' (FT_other ''other'') [''x''])) 0 = Some ''x''
   \<and> make_cell example_externals (example_field ''a'' (FT_other ''other'') [''x'']) 0
       = Inr \<lparr>value = Undefined, link = None, color = None, background = None\<rparr>
   \<and> (Undefined :: string CellValue) \<noteq> Raw ''x''"
  by code_simp

text \<open>
  C4, amended. For every field whose type is none of time, number, boolean and string,
  and every row, the value of the cell is left \<^verbatim>\<open>undefined\<close>, whatever the raw value is:
  none of the four tests of the code assigns it. The cell is produced whenever the cell
  option of the field is not \<^verbatim>\<open>color-background\<close>.
\<close>

theorem make_cell_other_type:
  assumes "field_type f \<noteq> FT_time" and "field_type f \<noteq> FT_number"
    and "field_type f \<noteq> FT_boolean" and "field_type f \<noteq> FT_string"
  shows "(\<forall>c. make_cell env f i = Inr c \<longrightarrow> value c = Undefined)
       \<and> (option_type f \<noteq> Some ''color-background'' \<longrightarrow> (\<exists>c. make_cell env f i = Inr c))"
  using assms
  by (auto simp: make_cell_def Let_def split: sum.splits if_splits prod.splits)

theorem make_cell_other_type_witness:
  "field_type (example_field ''geo'' (FT_other ''geo'') [''p'', ''q'']) \<noteq> FT_time
   \<and> field_type (example_field ''geo'' (FT_other ''geo'') [''p'', ''q'']) \<noteq> FT_number
   \<and> field_type (example_field ''geo'' (FT_other ''geo'') [''p'', ''q'']) \<noteq> FT_boolean
   \<and> field_type (example_field ''geo'' (FT_other ''geo'') [''p'', ''q'']) \<noteq> FT_string
   \<and> option_type (example_field ''geo'' (FT_other ''geo'') [''p'', ''q'']) \<noteq> Some ''color-background''
   \<and> at_index (values (example_field ''geo'' (FT_other ''geo'') [''p'', ''q''])) 1 = Some ''q''
   \<and> map_sum id value
         (make_cell example_externals (example_field ''geo'' (FT_other ''geo'') [''p'', ''q'']) 1)
       = Inr Undefined"
proof -
  let ?f = "example_field ''geo'' (FT_other ''geo'') [''p'', ''q'']"
  have t: "field_type ?f \<noteq> FT_time" "field_type ?f \<noteq> FT_number"
    "field_type ?f \<noteq> FT_boolean" "field_type ?f \<noteq> FT_string"
    by (simp_all add: example_field_def)
  have o: "option_type ?f \<noteq> Some ''color-background''"
    by (simp add: example_field_def example_custom_def option_type_def)
  have a: "at_index (values ?f) 1 = Some ''q''"
    by code_simp
  note th = make_cell_other_type [OF t, of example_externals 1]
  from th [THEN conjunct2] o obtain c where c: "make_cell example_externals ?f 1 = Inr c"
    by auto
  from th [THEN conjunct1] c have "value c = Undefined"
    by auto
  then have "map_sum id value (make_cell example_externals ?f 1) = Inr Undefined"
    unfolding c by simp
  then show ?thesis
    by (intro conjI t o a)
qed

text \<open>
  C5. For every cell of a field whose cell option is \<^verbatim>\<open>color-background\<close>, where the
  colouring step has set the foreground to a contrast colour and the background to the
  displayed colour, and whose link resolver gives at least one link at the row: the cell
  records the title and the target of the first link, its foreground is the fixed link
  colour \<^verbatim>\<open>#3B5586\<close> and not the contrast colour, and its background is the displayed
  colour.
\<close>

theorem make_cell_link_color:
  assumes "option_type f = Some ''color-background''"
    and "getTextColor (displayed_color f i) = Inr contrast"
    and "getLinks f = Some resolve" and "resolve i = l # ls"
  shows "\<exists>v. make_cell env f i =
           Inr \<lparr>value = v, link = Some \<lparr>link_title = link_title l, href = href l\<rparr>,
                color = Some ''#3B5586'', background = displayed_color f i\<rparr>"
  using assms by (simp add: make_cell_def displayed_color_def Let_def)

theorem make_cell_link_color_witness:
  "option_type (colored_field ''color-background'' [''#FFFFFF'']
      [\<lparr>link_title = ''Details'', href = ''/d/details''\<rparr>, \<lparr>link_title = ''More'', href = ''/d/more''\<rparr>])
     = Some ''color-background''
   \<and> getTextColor (displayed_color (colored_field ''color-background'' [''#FFFFFF'']
      [\<lparr>link_title = ''Details'', href = ''/d/details''\<rparr>, \<lparr>link_title = ''More'', href = ''/d/more''\<rparr>]) 0)
     = Inr (Some ''000000'')
   \<and> map_sum id (\<lambda>c. (link c, color c, background c))
        (make_cell example_externals (colored_field ''color-background'' [''#FFFFFF'']
          [\<lparr>link_title = ''Details'', href = ''/d/details''\<rparr>, \<lparr>link_title = ''More'', href = ''/d/more''\<rparr>]) 0)
     = Inr (Some \<lparr>link_title = ''Details'', href = ''/d/details''\<rparr>, Some ''#3B5586'', Some ''#FFFFFF'')"
proof -
  let ?ls = "[\<lparr>link_title = ''Details'', href = ''/d/details''\<rparr>, \<lparr>link_title = ''More'', href = ''/d/more''\<rparr>]"
  let ?f = "colored_field ''color-background'' [''#FFFFFF''] ?ls"
  have o: "option_type ?f = Some ''color-background''"
    by (simp add: colored_field_def example_custom_def option_type_def)
  have d: "displayed_color ?f 0 = Some ''#FFFFFF''"
    by (simp add: colored_field_def displayed_color_def at_index_def)
  have c: "getTextColor (displayed_color ?f 0) = Inr (Some ''000000'')"
    by (simp only: d getTextColor_white)
  have g: "getLinks ?f = Some (\<lambda>i. ?ls)"
    by (simp add: colored_field_def)
  have r: "(\<lambda>i. ?ls) (0 :: nat) =
             \<lparr>link_title = ''Details'', href = ''/d/details''\<rparr> # [\<lparr>link_title = ''More'', href = ''/d/more''\<rparr>]"
    by simp
  from make_cell_link_color [OF o c g r, of example_externals]
  obtain v where "make_cell example_externals ?f 0 =
           Inr \<lparr>value = v, link = Some \<lparr>link_title = link_title \<lparr>link_title = ''Details'', href = ''/d/details''\<rparr>,
                                      href = href \<lparr>link_title = ''Details'', href = ''/d/details''\<rparr>\<rparr>,
                color = Some ''#3B5586'', background = displayed_color ?f 0\<rparr>"
    by auto
  then have "map_sum id (\<lambda>c. (link c, color c, background c)) (make_cell example_externals ?f 0)
     = Inr (Some \<lparr>link_title = ''Details'', href = ''/d/details''\<rparr>, Some ''#3B5586'', Some ''#FFFFFF'')"
    by (simp add: d)
  then show ?thesis
    by (intro conjI o c)
qed

text \<open>
  C6, as the specification has it: for a well-formed colour, \<open>getTextColor\<close> returns
  black when \<open>L = (0.299 R + 0.587 G + 0.114 B) / 255\<close> is above one half and white
  otherwise. It fails at \<^verbatim>\<open>#DA3AF8\<close>: there \<open>L\<close> is one half exactly, which calls for
  white, and the code returns black, because the sum it computes in doubles is one unit
  in the last place above \<open>127.5\<close>.
\<close>

theorem getTextColor_half_counterexample:
  "hex_pair CHR ''D'' CHR ''A'' = 218 \<and> hex_pair CHR ''3'' CHR ''A'' = 58
   \<and> hex_pair CHR ''F'' CHR ''8'' = 248
   \<and> luminance_exact 218 58 248 = 1 / 2
   \<and> getTextColor (Some ''#DA3AF8'') = Inr (Some ''000000'')"
  by code_simp

text \<open>
  C6, amended. \<open>getTextColor\<close>, given a well-formed 6-digit colour with the channels
  \<open>R\<close>, \<open>G\<close> and \<open>B\<close>, computes the luminance \<open>(0.299 R + 0.587 G + 0.114 B) / 255\<close> in
  double precision and returns black when the computed value is above \<open>0.5\<close> and white
  otherwise. Whenever the exact luminance \<open>L\<close> is not one half, the computed value is above
  \<open>0.5\<close> exactly when \<open>L\<close> is, so the result is black for \<open>L > 0.5\<close> and white for
  \<open>L < 0.5\<close>. A 3-digit colour gives what its expansion gives, each digit doubled. The
  result is white for \<^verbatim>\<open>#000000\<close>, black for \<^verbatim>\<open>#FFFFFF\<close> and for \<^verbatim>\<open>#fff\<close>, and unset
  when no colour is given.
\<close>

theorem getTextColor_contrast:
  assumes "is_hex r1" "is_hex r2" "is_hex g1" "is_hex g2" "is_hex b1" "is_hex b2"
  shows "getTextColor None = Inr None
    \<and> getTextColor (Some [CHR ''#'', r1, r2, g1, g2, b1, b2]) =
           Inr (Some (if greater_n
                           (luminance (Fin (of_nat (hex_pair r1 r2))) (Fin (of_nat (hex_pair g1 g2)))
                              (Fin (of_nat (hex_pair b1 b2))))
                           (literal (1 / 2))
                      then ''000000'' else ''FFFFFF''))
    \<and> (luminance_exact (hex_pair r1 r2) (hex_pair g1 g2) (hex_pair b1 b2) \<noteq> 1 / 2 \<longrightarrow>
         greater_n
           (luminance (Fin (of_nat (hex_pair r1 r2))) (Fin (of_nat (hex_pair g1 g2)))
              (Fin (of_nat (hex_pair b1 b2))))
           (literal (1 / 2))
         = (1 / 2 < luminance_exact (hex_pair r1 r2) (hex_pair g1 g2) (hex_pair b1 b2)))
    \<and> (luminance_exact (hex_pair r1 r2) (hex_pair g1 g2) (hex_pair b1 b2) \<noteq> 1 / 2 \<longrightarrow>
         getTextColor (Some [CHR ''#'', r1, r2, g1, g2, b1, b2]) =
           Inr (Some (if 1 / 2 < luminance_exact (hex_pair r1 r2) (hex_pair g1 g2) (hex_pair b1 b2)
                      then ''000000'' else ''FFFFFF'')))
    \<and> getTextColor (Some [CHR ''#'', r1, g1, b1]) = getTextColor (Some [CHR ''#'', r1, r1, g1, g1, b1, b1])
    \<and> getTextColor (Some ''#000000'') = Inr (Some ''FFFFFF'')
    \<and> getTextColor (Some ''#FFFFFF'') = Inr (Some ''000000'')
    \<and> getTextColor (Some ''#fff'') = Inr (Some ''000000'')"
proof -
  have none: "getTextColor None = Inr None" by (simp add: getTextColor_def)
  have agree: "luminance_exact (hex_pair r1 r2) (hex_pair g1 g2) (hex_pair b1 b2) \<noteq> 1 / 2 \<longrightarrow>
         greater_n
           (luminance (Fin (of_nat (hex_pair r1 r2))) (Fin (of_nat (hex_pair g1 g2)))
              (Fin (of_nat (hex_pair b1 b2))))
           (literal (1 / 2))
         = (1 / 2 < luminance_exact (hex_pair r1 r2) (hex_pair g1 g2) (hex_pair b1 b2))"
    by (rule impI) (rule luminance_gt)
  have six: "luminance_exact (hex_pair r1 r2) (hex_pair g1 g2) (hex_pair b1 b2) \<noteq> 1 / 2 \<longrightarrow>
         getTextColor (Some [CHR ''#'', r1, r2, g1, g2, b1, b2]) =
           Inr (Some (if 1 / 2 < luminance_exact (hex_pair r1 r2) (hex_pair g1 g2) (hex_pair b1 b2)
                      then ''000000'' else ''FFFFFF''))"
    by (rule impI) (rule getTextColor_six [OF assms])
  show ?thesis
    by (intro conjI none getTextColor_computed [OF assms] agree six getTextColor_three
        getTextColor_black getTextColor_white getTextColor_short_white)
qed

theorem getTextColor_contrast_witness:
  "is_hex CHR ''D'' \<and> is_hex CHR ''A'' \<and> is_hex CHR ''3'' \<and> is_hex CHR ''F'' \<and> is_hex CHR ''7''
   \<and> is_hex CHR ''0'' \<and> is_hex CHR ''1'' \<and> is_hex CHR ''E''
   \<and> luminance_exact (hex_pair CHR ''D'' CHR ''A'') (hex_pair CHR ''3'' CHR ''A'')
        (hex_pair CHR ''F'' CHR ''7'') < 1 / 2
   \<and> getTextColor (Some ''#DA3AF7'') = Inr (Some ''FFFFFF'')
   \<and> luminance_exact (hex_pair CHR ''0'' CHR ''1'') (hex_pair CHR ''A'' CHR ''D'')
        (hex_pair CHR ''E'' CHR ''1'') = 1 / 2
   \<and> getTextColor (Some ''#01ADE1'') = Inr (Some ''FFFFFF'')
   \<and> getTextColor (Some ''#D3F'') = getTextColor (Some ''#DD33FF'')"
proof -
  have h: "is_hex CHR ''D''" "is_hex CHR ''A''" "is_hex CHR ''3''" "is_hex CHR ''F''" "is_hex CHR ''7''"
    "is_hex CHR ''0''" "is_hex CHR ''1''" "is_hex CHR ''E''"
    by (simp_all add: is_hex_def hex_digit_def)
  have l: "luminance_exact (hex_pair CHR ''D'' CHR ''A'') (hex_pair CHR ''3'' CHR ''A'')
             (hex_pair CHR ''F'' CHR ''7'') < 1 / 2"
    by (simp add: luminance_exact_def hex_pair_def hex_digit_def)
  have e: "luminance_exact (hex_pair CHR ''0'' CHR ''1'') (hex_pair CHR ''A'' CHR ''D'')
             (hex_pair CHR ''E'' CHR ''1'') = 1 / 2"
    by (simp add: luminance_exact_def hex_pair_def hex_digit_def)
  have n: "\<not> greater_n
             (luminance (Fin (of_nat (hex_pair CHR ''0'' CHR ''1''))) (Fin (of_nat (hex_pair CHR ''A'' CHR ''D'')))
                (Fin (of_nat (hex_pair CHR ''E'' CHR ''1''))))
             (literal (1 / 2))"
    by code_simp
  have below: "getTextColor (Some ''#DA3AF7'') = Inr (Some ''FFFFFF'')"
    using getTextColor_contrast [OF h(1) h(2) h(3) h(2) h(4) h(5), THEN conjunct2, THEN conjunct2,
        THEN conjunct2, THEN conjunct1] l
    by simp
  have half: "getTextColor (Some ''#01ADE1'') = Inr (Some ''FFFFFF'')"
    using getTextColor_contrast [OF h(6) h(7) h(2) h(1) h(8) h(7), THEN conjunct2, THEN conjunct1] n
    by (simp only: if_False)
  have short: "getTextColor (Some ''#D3F'') = getTextColor (Some ''#DD33FF'')"
    by (rule getTextColor_contrast [OF h(1) h(1) h(3) h(3) h(4) h(4), THEN conjunct2, THEN conjunct2,
        THEN conjunct2, THEN conjunct2, THEN conjunct1])
  show ?thesis
    by (intro conjI h l below e half short)
qed

text \<open>
  C7, as the specification has it: a time field whose unit has no \<^verbatim>\<open>time:\<close> prefix gets
  the system's full date format. It fails for the unit \<^verbatim>\<open>prefix:time:\<close>, which does not
  start with \<^verbatim>\<open>time:\<close>: the code tests \<^verbatim>\<open>includes\<close>, finds \<^verbatim>\<open>time:\<close> inside, and the
  format is \<^verbatim>\<open>prefix:\<close>.
\<close>

theorem new_column_fmt_counterexample:
  "\<not> prefix ''time:'' ''prefix:time:''
   \<and> fullDate example_externals = ''YYYY-MM-DD HH:mm:ss''
   \<and> new_column example_externals ''Time'' (time_field (Some ''prefix:time:''))
       = Inr \<lparr>name = ''Time'', data = [], hidden = False, align = None, type = FT_time,
              fmt = Some ''prefix:'', width = 150\<rparr>"
  by code_simp

text \<open>
  C7, amended. For every column built from a field: when the field is time-typed and its
  unit is \<^verbatim>\<open>time:YYYY-MM-DD\<close>, the format is exactly \<^verbatim>\<open>YYYY-MM-DD\<close>, and for any unit
  that starts with \<^verbatim>\<open>time:\<close> it is the rest of the unit; when the unit contains
  \<^verbatim>\<open>time:\<close> anywhere, the format is the unit without its first \<^verbatim>\<open>time:\<close>; when the
  field is time-typed and its unit is absent or does not contain \<^verbatim>\<open>time:\<close>, the format
  is the system's full date format; when the field is not time-typed, the format is
  unset.
\<close>

theorem new_column_fmt:
  assumes "new_column env n f = Inr col"
  shows "(field_type f = FT_time \<and> unit (config f) = Some ''time:YYYY-MM-DD'' \<longrightarrow>
            fmt col = Some ''YYYY-MM-DD'')
       \<and> (field_type f = FT_time \<and> unit (config f) = Some u \<and> prefix ''time:'' u \<longrightarrow>
            fmt col = Some (drop (length ''time:'') u))
       \<and> (field_type f = FT_time \<and> unit (config f) = Some u \<and> sublist ''time:'' u \<longrightarrow>
            fmt col = Some (replace u ''time:'' []))
       \<and> (field_type f = FT_time \<and> unit (config f) = Some u \<and> \<not> sublist ''time:'' u \<longrightarrow>
            fmt col = Some (fullDate env))
       \<and> (field_type f = FT_time \<and> unit (config f) = None \<longrightarrow> fmt col = Some (fullDate env))
       \<and> (field_type f \<noteq> FT_time \<longrightarrow> fmt col = None)"
proof -
  have col: "fmt col = column_fmt env f"
    using assms by (auto simp: new_column_def Let_def split: option.splits)
  have p: "prefix ''time:'' u \<Longrightarrow> replace u ''time:'' [] = drop (length ''time:'') u"
    by (simp only: replace_prefix append_Nil)
  show ?thesis
    unfolding col
    by (auto simp: column_fmt_def Let_def includes_str_sublist p dest: includes_str_prefix)
qed

theorem new_column_fmt_witness:
  "map_sum id fmt (new_column example_externals ''Time'' (time_field (Some ''time:YYYY-MM-DD'')))
     = Inr (Some ''YYYY-MM-DD'')
   \<and> \<not> sublist ''time:'' ''dateTimeAsIso''
   \<and> map_sum id fmt (new_column example_externals ''Time'' (time_field (Some ''dateTimeAsIso'')))
     = Inr (Some ''YYYY-MM-DD HH:mm:ss'')
   \<and> map_sum id fmt (new_column example_externals ''Time'' (time_field None))
     = Inr (Some ''YYYY-MM-DD HH:mm:ss'')
   \<and> map_sum id fmt (new_column example_externals ''a'' (example_field ''a'' FT_number []))
     = Inr None"
proof -
  have t: "\<And>u. field_type (time_field u) = FT_time" "\<And>u. unit (config (time_field u)) = u"
    by (simp_all add: time_field_def)
  have n: "field_type (example_field ''a'' FT_number []) \<noteq> FT_time"
    by (simp add: example_field_def)
  have d: "fullDate example_externals = ''YYYY-MM-DD HH:mm:ss''"
    by (simp add: example_externals_def)
  have "\<not> includes_str ''dateTimeAsIso'' ''time:''"
    by code_simp
  then have s: "\<not> sublist ''time:'' ''dateTimeAsIso''"
    using includes_str_sublist by blast
  have cu: "\<And>u. custom (config (time_field u)) = Some (example_custom None)"
    "custom (config (example_field ''a'' FT_number [])) = Some (example_custom None)"
    by (simp_all add: time_field_def example_field_def)
  have ex: "\<And>f. custom (config f) = Some (example_custom None) \<Longrightarrow>
              \<exists>col. new_column example_externals m f = Inr col" for m
    by (simp add: new_column_def Let_def)
  obtain c1 where c1: "new_column example_externals ''Time'' (time_field (Some ''time:YYYY-MM-DD'')) = Inr c1"
    using ex [OF cu(1)] by blast
  obtain c2 where c2: "new_column example_externals ''Time'' (time_field (Some ''dateTimeAsIso'')) = Inr c2"
    using ex [OF cu(1)] by blast
  obtain c3 where c3: "new_column example_externals ''Time'' (time_field None) = Inr c3"
    using ex [OF cu(1)] by blast
  obtain c4 where c4: "new_column example_externals ''a'' (example_field ''a'' FT_number []) = Inr c4"
    using ex [OF cu(2)] by blast
  have f1: "fmt c1 = Some ''YYYY-MM-DD''"
    using new_column_fmt [OF c1, THEN conjunct1] by (simp add: t)
  have f2: "fmt c2 = Some ''YYYY-MM-DD HH:mm:ss''"
    using new_column_fmt [OF c2, of "''dateTimeAsIso''", THEN conjunct2, THEN conjunct2,
        THEN conjunct2, THEN conjunct1]
    by (simp add: t s d)
  have f3: "fmt c3 = Some ''YYYY-MM-DD HH:mm:ss''"
    using new_column_fmt [OF c3, THEN conjunct2, THEN conjunct2, THEN conjunct2, THEN conjunct2,
        THEN conjunct1]
    by (simp add: t d)
  have f4: "fmt c4 = None"
    using new_column_fmt [OF c4, THEN conjunct2, THEN conjunct2, THEN conjunct2, THEN conjunct2,
        THEN conjunct2]
    by (simp add: n)
  show ?thesis
    unfolding c1 c2 c3 c4 by (intro conjI s) (simp_all add: f1 f2 f3 f4)
qed

text \<open>
  C8, as the specification has it: a malformed display colour fails for its cell only,
  which falls back to no computed foreground, and the other cells are exported. It
  fails: with the colour \<^verbatim>\<open>rgb(1,2,3)\<close> in the first row of a \<^verbatim>\<open>color-background\<close>
  field, \<open>toObject\<close> raises a \<^verbatim>\<open>TypeError\<close> and returns no sheet, although every other
  cell of the table is well-formed.
\<close>

theorem toObject_malformed_color_counterexample:
  "toObject example_externals
     (Some [example_frame [colored_field ''color-background'' [''rgb(1,2,3)'', ''#FFFFFF''] [],
                           example_field ''a'' FT_string [''x'', ''y'']]])
   = Inl TypeError"
  by code_simp

text \<open>
  C8, amended. For every cell of a field whose cell option is \<^verbatim>\<open>color-background\<close> and
  whose display colour is a string that is not empty and, after the expansion of four
  code units, does not match \<^verbatim>\<open>/^#(..)(..)(..)$/\<close>: the contrast computation raises a
  \<^verbatim>\<open>TypeError\<close>, no cell is produced, and \<open>toObject\<close> as a whole fails with that error
  and returns no sheet, whatever the other cells and tables are.
\<close>

theorem toObject_malformed_color:
  assumes "s < length frames" and "j < length (frame_fields (frames ! s))"
    and "i < length (values (frame_fields (frames ! s) ! 0))"
    and "option_type (frame_fields (frames ! s) ! j) = Some ''color-background''"
    and "displayed_color (frame_fields (frames ! s) ! j) i = Some bg"
    and "bg \<noteq> []" and "match_rgb (expand_short bg) = None"
  shows "getTextColor (Some bg) = Inl TypeError
       \<and> make_cell env (frame_fields (frames ! s) ! j) i = Inl TypeError
       \<and> toObject env (Some frames) = Inl TypeError"
proof -
  have color: "getTextColor (Some bg) = Inl TypeError"
    using assms(6,7) by (simp add: getTextColor_def)
  have cell: "make_cell env (frame_fields (frames ! s) ! j) i = Inl TypeError"
    using assms(4-7) by (rule make_cell_malformed)
  have frame: "\<And>r. add_frame env (frames ! s) r = Inl TypeError"
    using assms(2,3) cell by (rule add_frame_malformed)
  have "for_loop (\<lambda>s. add_frame env (frames ! s)) [0..<length frames] [] = Inl TypeError"
    using assms(1) by (intro for_loop_fails [of s] frame add_frame_error) simp_all
  then show ?thesis
    using color cell by (simp add: toObject_def)
qed

theorem toObject_malformed_color_witness:
  "option_type (colored_field ''color-background'' [''#fff'', ''red''] []) = Some ''color-background''
   \<and> displayed_color (colored_field ''color-background'' [''#fff'', ''red''] []) 1 = Some ''red''
   \<and> match_rgb (expand_short ''red'') = None
   \<and> getTextColor (Some ''red'') = Inl TypeError
   \<and> toObject example_externals
       (Some [example_frame [example_field ''a'' FT_string [''x'', ''y''],
                             colored_field ''color-background'' [''#fff'', ''red''] []]])
     = Inl TypeError"
proof -
  let ?f = "colored_field ''color-background'' [''#fff'', ''red''] []"
  let ?frames = "[example_frame [example_field ''a'' FT_string [''x'', ''y''], ?f]]"
  have f: "frame_fields (?frames ! 0) ! 1 = ?f"
    by (simp add: example_frame_def)
  have a1: "0 < length ?frames" by simp
  have a2: "1 < length (frame_fields (?frames ! 0))" by code_simp
  have a3: "1 < length (values (frame_fields (?frames ! 0) ! 0))" by code_simp
  have o: "option_type ?f = Some ''color-background''" by code_simp
  have d: "displayed_color ?f 1 = Some ''red''" by code_simp
  have a6: "''red'' \<noteq> []" by simp
  have m: "match_rgb (expand_short ''red'') = None" by code_simp
  have "getTextColor (Some ''red'') = Inl TypeError
       \<and> make_cell example_externals (frame_fields (?frames ! 0) ! 1) 1 = Inl TypeError
       \<and> toObject example_externals (Some ?frames) = Inl TypeError"
    using o d by (intro toObject_malformed_color a1 a2 a3 a6 m) (simp_all only: f)
  with o d m show ?thesis by blast
qed

text \<open>
  C9. The specification: for every field the column has the defaults, hidden false,
  alignment unset for \<^verbatim>\<open>auto\<close>, width 150 when the configuration gives none. The code:
  for a field whose configuration has no \<^verbatim>\<open>custom\<close> block, and so no width, no column
  is built; \<^verbatim>\<open>fieldConfig.custom.width\<close> raises a \<^verbatim>\<open>TypeError\<close> and \<open>toObject\<close> fails,
  while \<^verbatim>\<open>fieldConfig.custom?.hidden\<close> one line above allows for that configuration.
\<close>

theorem new_column_without_custom:
  "custom (config bare_field) = None
   \<and> new_column example_externals ''a'' bare_field = Inl TypeError
   \<and> toObject example_externals (Some [example_frame [bare_field]]) = Inl TypeError"
  by code_simp

text \<open>
  C10. The specification: \<open>onDownload\<close> raises the \<open>loading\<close> flag at the start and lowers
  it when the action completes, on success and on failure. The code: when the download
  rejects (here every panel's data times out), the handler ends at the \<^verbatim>\<open>await\<close> and
  the component is left with \<open>loading\<close> true.
\<close>

theorem onDownload_rejected_keeps_loading:
  "onDownload
     (Some (initWindowRuntime example_externals accepted timed_out (\<lambda>p. Inr [])
              (Some example_dashboard)))
     \<lparr>reportType = csv, zipped = Some False, loading = False\<rparr>
   = (\<lparr>reportType = csv, zipped = Some False, loading = True\<rparr>,
      Inl (Rejected ''Timeout exceeded, no data received''))"
  by code_simp

end
